theory Spec2Isabelle
  imports Main "HOL-Library.AList"
begin

section \<open>JavaScript values\<close>

text \<open>
  The worker bridge passes values of TypeScript type \<open>unknown\<close> around: tool arguments,
  handler results, rejection reasons. They are modelled by a datatype of JavaScript values.
  Finite numbers are the integers (printed in plain decimal, as Number::toString does below
  10^21); an object is the list of its own enumerable string-keyed data properties in
  property order; a function value carries an identity and the text that String() gives
  for it; an error object carries its name (\<open>Error\<close>, \<open>TypeError\<close>, ...) and its message.
  Objects are plain: no accessors, no \<open>toString\<close> or \<open>toJSON\<close> of their own, no boxed
  primitives.
\<close>

datatype jsnum = NaN | PosInfinity | NegInfinity | NegZero | Fin int

datatype jsval =
    JUndefined
  | JNull
  | JBool bool
  | JNum jsnum
  | JBigInt int
  | JStr string
  | JSymbol string
  | JFunction nat string
  | JError string string
  | JArray "jsval list"
  | JObject "(string \<times> jsval) list"

definition digit_char :: "nat \<Rightarrow> char" where
  "digit_char d =
     (if d = 0 then CHR ''0'' else if d = 1 then CHR ''1'' else if d = 2 then CHR ''2''
      else if d = 3 then CHR ''3'' else if d = 4 then CHR ''4'' else if d = 5 then CHR ''5''
      else if d = 6 then CHR ''6'' else if d = 7 then CHR ''7'' else if d = 8 then CHR ''8''
      else CHR ''9'')"

function show_nat :: "nat \<Rightarrow> string" where
  "show_nat n = (if n < 10 then [digit_char n] else show_nat (n div 10) @ [digit_char (n mod 10)])"
  by pat_completeness auto
termination
  by (relation "measure (\<lambda>n. n)") auto

definition show_int :: "int \<Rightarrow> string" where
  "show_int i = (if i < 0 then CHR ''-'' # show_nat (nat (- i)) else show_nat (nat i))"

fun show_num :: "jsnum \<Rightarrow> string" where
  "show_num NaN = ''NaN''"
| "show_num PosInfinity = ''Infinity''"
| "show_num NegInfinity = ''-Infinity''"
| "show_num NegZero = ''0''"
| "show_num (Fin i) = show_int i"

text \<open>
  \<open>String(v)\<close>. An array prints its elements joined by commas, \<open>undefined\<close> and \<open>null\<close>
  elements as the empty string; a plain object prints as \<open>[object Object]\<close>; an error
  object prints as \<open>name: message\<close>, or the name alone when the message is empty.
\<close>

fun js_String :: "jsval \<Rightarrow> string"
  and js_join :: "jsval list \<Rightarrow> string" where
  "js_String JUndefined = ''undefined''"
| "js_String JNull = ''null''"
| "js_String (JBool b) = (if b then ''true'' else ''false'')"
| "js_String (JNum n) = show_num n"
| "js_String (JBigInt i) = show_int i"
| "js_String (JStr s) = s"
| "js_String (JSymbol d) = ''Symbol('' @ d @ '')''"
| "js_String (JFunction _ src) = src"
| "js_String (JError n m) = (if m = [] then n else if n = [] then m else n @ '': '' @ m)"
| "js_String (JArray xs) = js_join xs"
| "js_String (JObject _) = ''[object Object]''"
| "js_join [] = []"
| "js_join (x # xs) =
     (if x = JUndefined \<or> x = JNull then [] else js_String x) @
     (if xs = [] then [] else CHR '','' # js_join xs)"

text \<open>\<open>new Error(message)\<close>.\<close>

definition new_Error :: "string \<Rightarrow> jsval" where
  "new_Error m = JError ''Error'' m"

section \<open>Promises and timers of the event loop\<close>

text \<open>
  A promise is a handle with a state; settling is once only. A timer is a handle with the
  callback \<open>setTimeout\<close> was given; \<open>clearTimeout\<close> unschedules it, and the runtime calls
  the callback of a timer only while it is scheduled.
\<close>

datatype pstate = Pending | Fulfilled jsval | Rejected jsval

datatype timer_cb =
    RpcTimeout string nat nat
  | RegistrationTimeout
  | ShutdownTimeout nat

record world =
  promises :: "nat \<Rightarrow> pstate"
  timers :: "nat \<rightharpoonup> timer_cb"
  fresh :: nat

definition new_promise :: "world \<Rightarrow> nat \<times> world" where
  "new_promise w =
     (fresh w, w\<lparr>promises := (promises w)(fresh w := Pending), fresh := Suc (fresh w)\<rparr>)"

definition settle :: "nat \<Rightarrow> pstate \<Rightarrow> world \<Rightarrow> world" where
  "settle p out w =
     (if promises w p = Pending then w\<lparr>promises := (promises w)(p := out)\<rparr> else w)"

definition setTimeout :: "timer_cb \<Rightarrow> world \<Rightarrow> nat \<times> world" where
  "setTimeout cb w =
     (fresh w, w\<lparr>timers := (timers w)(fresh w \<mapsto> cb), fresh := Suc (fresh w)\<rparr>)"

definition clearTimeout :: "nat \<Rightarrow> world \<Rightarrow> world" where
  "clearTimeout h w = w\<lparr>timers := (timers w)(h := None)\<rparr>"

section \<open>The request correlator (rpc.ts)\<close>

text \<open>
  \<open>PendingRequest\<close>: \<open>resolve\<close> and \<open>reject\<close> are the resolving functions of the request's
  promise, modelled by the handle of the promise they settle. The \<open>pending\<close> Map keeps
  insertion order: \<open>set\<close> on a present key replaces the entry in place, else appends.
\<close>

record PendingRequest =
  resolve :: nat
  reject :: nat
  timer :: nat

record RpcCorrelator =
  pending :: "(string \<times> PendingRequest) list"

type_synonym rpc_state = "RpcCorrelator \<times> world"

definition timeout_message :: "nat \<Rightarrow> string \<Rightarrow> string" where
  "timeout_message timeoutMs reqId =
     ''RPC timeout after '' @ show_nat timeoutMs @ ''ms (reqId: '' @ reqId @ '')''"

text \<open>
  \<open>createRequest(timeoutMs)\<close>. The identifier \<open>crypto.randomUUID()\<close> returns is an input of
  the model. The result is the pair \<open>{reqId, promise}\<close>.
\<close>

definition createRequest :: "nat \<Rightarrow> string \<Rightarrow> rpc_state \<Rightarrow> (string \<times> nat) \<times> rpc_state" where
  "createRequest timeoutMs reqId s =
     (let (c, w) = s;
          (p, w1) = new_promise w;
          (t, w2) = setTimeout (RpcTimeout reqId timeoutMs p) w1;
          c' = c\<lparr>pending := AList.update reqId \<lparr>resolve = p, reject = p, timer = t\<rparr> (pending c)\<rparr>
      in ((reqId, p), (c', w2)))"

text \<open>The callback of the timer that \<open>createRequest\<close> starts.\<close>

definition timeout_callback :: "string \<Rightarrow> nat \<Rightarrow> nat \<Rightarrow> rpc_state \<Rightarrow> rpc_state" where
  "timeout_callback reqId timeoutMs p s =
     (let (c, w) = s;
          c' = c\<lparr>pending := AList.delete reqId (pending c)\<rparr>
      in (c', settle p (Rejected (new_Error (timeout_message timeoutMs reqId))) w))"

definition rpc_resolve :: "string \<Rightarrow> jsval \<Rightarrow> rpc_state \<Rightarrow> bool \<times> rpc_state" where
  "rpc_resolve reqId v s =
     (let (c, w) = s in
      case map_of (pending c) reqId of
        None \<Rightarrow> (False, s)
      | Some entry \<Rightarrow>
          (let w1 = clearTimeout (timer entry) w;
               c' = c\<lparr>pending := AList.delete reqId (pending c)\<rparr>
           in (True, (c', settle (resolve entry) (Fulfilled v) w1))))"

definition rpc_reject :: "string \<Rightarrow> jsval \<Rightarrow> rpc_state \<Rightarrow> bool \<times> rpc_state" where
  "rpc_reject reqId err s =
     (let (c, w) = s in
      case map_of (pending c) reqId of
        None \<Rightarrow> (False, s)
      | Some entry \<Rightarrow>
          (let w1 = clearTimeout (timer entry) w;
               c' = c\<lparr>pending := AList.delete reqId (pending c)\<rparr>
           in (True, (c', settle (reject entry) (Rejected err) w1))))"

text \<open>The loop of \<open>rejectAll\<close> over the entries of the Map, in order.\<close>

fun rejectAll_loop :: "jsval \<Rightarrow> (string \<times> PendingRequest) list \<Rightarrow> world \<Rightarrow> world" where
  "rejectAll_loop err [] w = w"
| "rejectAll_loop err ((reqId, entry) # rest) w =
     rejectAll_loop err rest (settle (reject entry) (Rejected err) (clearTimeout (timer entry) w))"

definition rejectAll :: "jsval \<Rightarrow> rpc_state \<Rightarrow> rpc_state" where
  "rejectAll err s =
     (let (c, w) = s in (c\<lparr>pending := []\<rparr>, rejectAll_loop err (pending c) w))"

definition rpc_size :: "rpc_state \<Rightarrow> nat" where
  "rpc_size s = length (pending (fst s))"

text \<open>
  The runtime firing timer \<open>h\<close>: nothing happens unless the timer is still scheduled; a
  timer fires once.
\<close>

definition fire_rpc_timer :: "nat \<Rightarrow> rpc_state \<Rightarrow> rpc_state" where
  "fire_rpc_timer h s =
     (let (c, w) = s in
      case timers w h of
        Some (RpcTimeout reqId timeoutMs p) \<Rightarrow> timeout_callback reqId timeoutMs p (c, clearTimeout h w)
      | _ \<Rightarrow> s)"

text \<open>
  Runs of the correlator: the calls of its methods and the timers that fire, in any order.
  A freshly constructed correlator has an empty table.
\<close>

definition empty_world :: world where
  "empty_world = \<lparr>promises = (\<lambda>_. Pending), timers = Map.empty, fresh = 0\<rparr>"

definition empty_rpc :: rpc_state where
  "empty_rpc = (\<lparr>pending = []\<rparr>, empty_world)"

datatype rpc_event =
    Create nat string
  | Resolve string jsval
  | Reject string jsval
  | RejectAll jsval
  | Fire nat

fun rpc_step :: "rpc_event \<Rightarrow> rpc_state \<Rightarrow> rpc_state" where
  "rpc_step (Create timeoutMs reqId) s = snd (createRequest timeoutMs reqId s)"
| "rpc_step (Resolve reqId v) s = snd (rpc_resolve reqId v s)"
| "rpc_step (Reject reqId err) s = snd (rpc_reject reqId err s)"
| "rpc_step (RejectAll err) s = rejectAll err s"
| "rpc_step (Fire h) s = fire_rpc_timer h s"

definition rpc_run :: "rpc_event list \<Rightarrow> rpc_state \<Rightarrow> rpc_state" where
  "rpc_run evs s = fold rpc_step evs s"

text \<open>
  The invariant of the correlator: every pending entry holds the resolving functions of one
  unsettled promise and the handle of its own scheduled timer; handles in use are below the
  allocation counter; no two scheduled timers reject the same promise; keys are distinct.
\<close>

definition rpc_inv :: "rpc_state \<Rightarrow> bool" where
  "rpc_inv s \<longleftrightarrow>
     (\<forall>(k, e) \<in> set (pending (fst s)).
        resolve e = reject e \<and> promises (snd s) (reject e) = Pending \<and>
        (\<exists>ms. timers (snd s) (timer e) = Some (RpcTimeout k ms (reject e)))) \<and>
     (\<forall>h k ms p. timers (snd s) h = Some (RpcTimeout k ms p) \<longrightarrow>
        h < fresh (snd s) \<and> p < fresh (snd s)) \<and>
     (\<forall>h h' k k' ms ms' p.
        timers (snd s) h = Some (RpcTimeout k ms p) \<and>
        timers (snd s) h' = Some (RpcTimeout k' ms' p) \<longrightarrow> h = h') \<and>
     distinct (map fst (pending (fst s)))"


section \<open>The descriptor serializer (serialization.ts)\<close>

text \<open>\<open>typeof v\<close>, and the truthiness \<open>if (v)\<close>, \<open>!v\<close>, \<open>a && b\<close> and \<open>a || b\<close> test.\<close>

fun js_typeof :: "jsval \<Rightarrow> string" where
  "js_typeof JUndefined = ''undefined''"
| "js_typeof JNull = ''object''"
| "js_typeof (JBool _) = ''boolean''"
| "js_typeof (JNum _) = ''number''"
| "js_typeof (JBigInt _) = ''bigint''"
| "js_typeof (JStr _) = ''string''"
| "js_typeof (JSymbol _) = ''symbol''"
| "js_typeof (JFunction _ _) = ''function''"
| "js_typeof (JError _ _) = ''object''"
| "js_typeof (JArray _) = ''object''"
| "js_typeof (JObject _) = ''object''"

fun js_truthy :: "jsval \<Rightarrow> bool" where
  "js_truthy JUndefined = False"
| "js_truthy JNull = False"
| "js_truthy (JBool b) = b"
| "js_truthy (JNum n) = (n \<noteq> NaN \<and> n \<noteq> NegZero \<and> n \<noteq> Fin 0)"
| "js_truthy (JBigInt i) = (i \<noteq> 0)"
| "js_truthy (JStr s) = (s \<noteq> [])"
| "js_truthy _ = True"

text \<open>A property read \<open>obj.k\<close> of a plain object: \<open>undefined\<close> when the property is absent.\<close>

definition get_prop :: "(string \<times> jsval) list \<Rightarrow> string \<Rightarrow> jsval" where
  "get_prop obj k = (case map_of obj k of None \<Rightarrow> JUndefined | Some v \<Rightarrow> v)"

text \<open>
  \<open>JSON.stringify\<close>, by what \<open>JSON.parse\<close> reads back from its text. \<open>json_value v\<close> is
  \<open>Inl\<close> of the value thrown, \<open>Inr None\<close> where \<open>JSON.stringify\<close> gives \<open>undefined\<close> (the
  property is left out of an object and written \<open>null\<close> in an array), and \<open>Inr (Some j)\<close>
  for the value \<open>j\<close> that the text written for \<open>v\<close> parses to. A number that is not finite
  is written \<open>null\<close>, negative zero is written \<open>0\<close>, a BigInt throws a TypeError, an error
  object has no enumerable property of its own.
\<close>

fun json_value :: "jsval \<Rightarrow> jsval + jsval option"
  and json_array :: "jsval list \<Rightarrow> jsval + jsval list"
  and json_object :: "(string \<times> jsval) list \<Rightarrow> jsval + (string \<times> jsval) list" where
  "json_value JUndefined = Inr None"
| "json_value JNull = Inr (Some JNull)"
| "json_value (JBool b) = Inr (Some (JBool b))"
| "json_value (JNum n) =
     Inr (Some (case n of Fin i \<Rightarrow> JNum (Fin i) | NegZero \<Rightarrow> JNum (Fin 0) | _ \<Rightarrow> JNull))"
| "json_value (JBigInt i) = Inl (JError ''TypeError'' ''Do not know how to serialize a BigInt'')"
| "json_value (JStr s) = Inr (Some (JStr s))"
| "json_value (JSymbol d) = Inr None"
| "json_value (JFunction f src) = Inr None"
| "json_value (JError n m) = Inr (Some (JObject []))"
| "json_value (JArray xs) =
     (case json_array xs of Inl e \<Rightarrow> Inl e | Inr ys \<Rightarrow> Inr (Some (JArray ys)))"
| "json_value (JObject kvs) =
     (case json_object kvs of Inl e \<Rightarrow> Inl e | Inr kvs' \<Rightarrow> Inr (Some (JObject kvs')))"
| "json_array [] = Inr []"
| "json_array (x # xs) =
     (case json_value x of
        Inl e \<Rightarrow> Inl e
      | Inr r \<Rightarrow>
          (case json_array xs of
             Inl e \<Rightarrow> Inl e
           | Inr ys \<Rightarrow> Inr ((case r of None \<Rightarrow> JNull | Some y \<Rightarrow> y) # ys)))"
| "json_object [] = Inr []"
| "json_object ((k, v) # kvs) =
     (case json_value v of
        Inl e \<Rightarrow> Inl e
      | Inr r \<Rightarrow>
          (case json_object kvs of
             Inl e \<Rightarrow> Inl e
           | Inr rest \<Rightarrow> Inr (case r of None \<Rightarrow> rest | Some y \<Rightarrow> (k, y) # rest)))"

text \<open>
  \<open>JSON.parse(JSON.stringify(v))\<close>: where \<open>JSON.stringify\<close> gives \<open>undefined\<close>,
  \<open>JSON.parse\<close> throws a SyntaxError.
\<close>

definition json_roundtrip :: "jsval \<Rightarrow> jsval + jsval" where
  "json_roundtrip v =
     (case json_value v of
        Inl e \<Rightarrow> Inl e
      | Inr None \<Rightarrow> Inl (JError ''SyntaxError''
                      (CHR 0x22 # ''undefined'' @ CHR 0x22 # '' is not valid JSON''))
      | Inr (Some j) \<Rightarrow> Inr j)"

record SerializedToolDescriptor =
  name :: string
  label :: "string option"
  description :: "string option"
  parameters :: "jsval option"


text \<open>\<open>serializeToolDescriptor(tool)\<close>: \<open>Inl\<close> of the value thrown, or the descriptor.\<close>

definition serializeToolDescriptor ::
    "(string \<times> jsval) list \<Rightarrow> jsval + SerializedToolDescriptor" where
  "serializeToolDescriptor tool =
     (let n = js_String (case get_prop tool ''name'' of
                           JUndefined \<Rightarrow> JStr [] | JNull \<Rightarrow> JStr [] | v \<Rightarrow> v);
          l = (case get_prop tool ''label'' of JStr s \<Rightarrow> Some s | _ \<Rightarrow> None);
          t = (case get_prop tool ''description'' of JStr s \<Rightarrow> Some s | _ \<Rightarrow> None)
      in if js_truthy (get_prop tool ''parameters'') \<and>
            js_typeof (get_prop tool ''parameters'') = ''object''
         then (case json_roundtrip (get_prop tool ''parameters'') of
                 Inl e \<Rightarrow> Inl e
               | Inr p \<Rightarrow> Inr \<lparr>name = n, label = l, description = t, parameters = Some p\<rparr>)
         else Inr \<lparr>name = n, label = l, description = t, parameters = None\<rparr>)"




section \<open>The worker entry point (worker-entry.ts)\<close>

text \<open>
  The messages of protocol.ts. In \<open>InvokeResult\<close> the fields are \<open>reqId\<close>, \<open>ok\<close>, \<open>value\<close>
  and \<open>error\<close>; an absent optional field is \<open>None\<close>.
\<close>

datatype log_level = Info | Warn | ErrorLevel | Debug

datatype WorkerToMainMessage =
    RegisterTool SerializedToolDescriptor
  | RegisterHook string string "jsval option"
  | RegisterService string
  | RegisterCommand string "string option" "string option"
  | RegistrationComplete
  | RegistrationError string
  | UnsupportedApi string string
  | InvokeResult string bool "jsval option" "string option"
  | Log log_level string "jsval list option"

record InvokeContext =
  channelId :: "string option"
  senderId :: "string option"

record PluginMetadata =
  meta_id :: string
  meta_name :: string
  meta_version :: "string option"
  meta_description :: "string option"

record WorkerInitMessage =
  pluginId :: string
  pluginSource :: string
  pluginConfig :: "jsval option"
  metadata :: PluginMetadata
  jitiAlias :: "(string \<times> string) list option"

datatype MainToWorkerMessage =
    Init WorkerInitMessage
  | InvokeTool string string jsval
  | InvokeHook string string string jsval
  | InvokeServiceStart string string
  | InvokeServiceStop string string
  | InvokeCommand string string "string list" InvokeContext

text \<open>
  Plugin code. A handler is a function of the plugin, known to the model by its identity;
  what calling it and awaiting its result gives is an input of the model: the value
  returned, the value thrown, or nothing when the call never settles.
\<close>

datatype completion = Returns jsval | Throws jsval | Hangs

type_synonym plugin_code = "nat \<Rightarrow> jsval list \<Rightarrow> completion"

record ServiceHandlers =
  start :: "nat option"
  stop :: "nat option"

text \<open>
  The module state of the worker: the four handler Maps and, in order, the messages given
  to \<open>port.postMessage\<close>.
\<close>

record worker =
  toolHandlers :: "(string \<times> nat) list"
  hookHandlers :: "(string \<times> nat) list"
  serviceHandlers :: "(string \<times> ServiceHandlers) list"
  commandHandlers :: "(string \<times> nat) list"
  posted :: "WorkerToMainMessage list"

definition empty_worker :: worker where
  "empty_worker = \<lparr>toolHandlers = [], hookHandlers = [], serviceHandlers = [],
     commandHandlers = [], posted = []\<rparr>"

definition postMessage :: "WorkerToMainMessage \<Rightarrow> worker \<Rightarrow> worker" where
  "postMessage m w = w\<lparr>posted := posted w @ [m]\<rparr>"

definition UNSUPPORTED_METHODS :: "string list" where
  "UNSUPPORTED_METHODS = [''registerChannel'', ''registerProvider'', ''registerHttpHandler'',
     ''registerHttpRoute'', ''registerGatewayMethod'', ''registerCli'']"

definition sendLog :: "log_level \<Rightarrow> string \<Rightarrow> jsval list option \<Rightarrow> worker \<Rightarrow> worker" where
  "sendLog level message args w = postMessage (Log level message args) w"

text \<open>
  A call of a bridge API member by plugin code gives the value thrown, if any, and the new
  state. The stub that \<open>createBridgeApi\<close> stores under each unsupported method:
\<close>

definition unsupported_stub :: "string \<Rightarrow> worker \<Rightarrow> jsval option \<times> worker" where
  "unsupported_stub method w =
     (let error = method @ '' is not supported in isolated (worker) mode'';
          w1 = postMessage (UnsupportedApi method error) w
      in (Some (new_Error error), w1))"

text \<open>The record \<open>unsupported\<close> that the loop over \<open>UNSUPPORTED_METHODS\<close> fills.\<close>

definition unsupported :: "string \<rightharpoonup> (worker \<Rightarrow> jsval option \<times> worker)" where
  "unsupported = map_of (map (\<lambda>method. (method, unsupported_stub method)) UNSUPPORTED_METHODS)"

text \<open>
  Plugin code calling \<open>api[method](...)\<close> for a name that the API object holds only if
  \<open>unsupported\<close> does: a call of a member that is not there throws a TypeError.
\<close>

definition call_unsupported :: "string \<Rightarrow> worker \<Rightarrow> jsval option \<times> worker" where
  "call_unsupported method w =
     (case unsupported method of
        None \<Rightarrow> (Some (JError ''TypeError'' (''api.'' @ method @ '' is not a function'')), w)
      | Some stub \<Rightarrow> stub w)"

text \<open>The getter \<open>runtime\<close> of the API object.\<close>

definition get_runtime :: "worker \<Rightarrow> jsval option \<times> worker" where
  "get_runtime w = (Some (new_Error ''api.runtime is not available in isolated mode''), w)"





text \<open>The four methods of \<open>logger\<close>: \<open>logger.info(msg, ...args)\<close> and the like.\<close>

definition logger_call :: "log_level \<Rightarrow> string \<Rightarrow> jsval list \<Rightarrow> worker \<Rightarrow> jsval option \<times> worker" where
  "logger_call level msg args w = (None, sendLog level msg (Some args) w)"

text \<open>\<open>registerHook\<close>, the legacy API.\<close>

definition registerHook :: "worker \<Rightarrow> jsval option \<times> worker" where
  "registerHook w =
     (None, sendLog Warn
        ''registerHook via legacy API is not supported in worker mode; use on() instead'' None w)"

text \<open>\<open>String.prototype.trim\<close>, on the white space of the first 256 code points.\<close>

definition js_whitespace :: "char \<Rightarrow> bool" where
  "js_whitespace c = (of_char c \<in> {9, 10, 11, 12, 13, 32, 160 :: nat})"

definition trim :: "string \<Rightarrow> string" where
  "trim s = rev (dropWhile js_whitespace (rev (dropWhile js_whitespace s)))"

record ServiceArg =
  service_id :: "string option"
  service_start :: "nat option"
  service_stop :: "nat option"

definition registerService :: "ServiceArg \<Rightarrow> worker \<Rightarrow> jsval option \<times> worker" where
  "registerService service w =
     (case map_option trim (service_id service) of
        None \<Rightarrow> (None, w)
      | Some i \<Rightarrow>
          if i = [] then (None, w)
          else (None, postMessage (RegisterService i)
                  (w\<lparr>serviceHandlers :=
                       AList.update i \<lparr>start = service_start service, stop = service_stop service\<rparr>
                         (serviceHandlers w)\<rparr>)))"

record CommandArg =
  command_name :: "string option"
  command_description :: "string option"
  command_usage :: "string option"
  command_handler :: nat

definition registerCommand :: "CommandArg \<Rightarrow> worker \<Rightarrow> jsval option \<times> worker" where
  "registerCommand command w =
     (case map_option trim (command_name command) of
        None \<Rightarrow> (None, w)
      | Some n \<Rightarrow>
          if n = [] then (None, w)
          else (None, postMessage
                  (RegisterCommand n (command_description command) (command_usage command))
                  (w\<lparr>commandHandlers := AList.update n (command_handler command) (commandHandlers w)\<rparr>)))"

text \<open>\<open>on(hookName, handler, opts)\<close>; the third argument is \<open>opts?.priority\<close>.\<close>

definition on_hook ::
    "WorkerInitMessage \<Rightarrow> string \<Rightarrow> nat \<Rightarrow> jsval option \<Rightarrow> worker \<Rightarrow> jsval option \<times> worker" where
  "on_hook init hookName handler priority w =
     (let handlerId = pluginId init @ '':'' @ hookName
      in (None, postMessage (RegisterHook hookName handlerId priority)
                  (w\<lparr>hookHandlers := AList.update handlerId handler (hookHandlers w)\<rparr>)))"

text \<open>
  What \<open>port.postMessage\<close> cannot clone: the first function or symbol inside the value.
  Posting such a value throws a DataCloneError that names it.
\<close>

fun uncloneable :: "jsval \<Rightarrow> jsval option"
  and uncloneable_list :: "jsval list \<Rightarrow> jsval option"
  and uncloneable_props :: "(string \<times> jsval) list \<Rightarrow> jsval option" where
  "uncloneable (JSymbol d) = Some (JSymbol d)"
| "uncloneable (JFunction f src) = Some (JFunction f src)"
| "uncloneable (JArray xs) = uncloneable_list xs"
| "uncloneable (JObject kvs) = uncloneable_props kvs"
| "uncloneable JUndefined = None"
| "uncloneable JNull = None"
| "uncloneable (JBool b) = None"
| "uncloneable (JNum n) = None"
| "uncloneable (JBigInt i) = None"
| "uncloneable (JStr s) = None"
| "uncloneable (JError n m) = None"
| "uncloneable_list [] = None"
| "uncloneable_list (x # xs) =
     (case uncloneable x of Some u \<Rightarrow> Some u | None \<Rightarrow> uncloneable_list xs)"
| "uncloneable_props [] = None"
| "uncloneable_props ((k, v) # kvs) =
     (case uncloneable v of Some u \<Rightarrow> Some u | None \<Rightarrow> uncloneable_props kvs)"

text \<open>
  The \<open>try\<close> block around a handler call: the result is posted with \<open>ok: true\<close>; a value
  thrown by the handler, or by \<open>postMessage\<close> on a result it cannot clone, is posted as
  \<open>ok: false\<close> with \<open>String(err)\<close>. A call that never settles posts nothing.
  \<open>with_value\<close> tells whether the message has the \<open>value\<close> field.
\<close>

definition post_outcome :: "string \<Rightarrow> bool \<Rightarrow> completion \<Rightarrow> worker \<Rightarrow> worker" where
  "post_outcome reqId with_value c w =
     (case c of
        Hangs \<Rightarrow> w
      | Throws err \<Rightarrow> postMessage (InvokeResult reqId False None (Some (js_String err))) w
      | Returns v \<Rightarrow>
          if \<not> with_value then postMessage (InvokeResult reqId True None None) w
          else (case uncloneable v of
                  None \<Rightarrow> postMessage (InvokeResult reqId True (Some v) None) w
                | Some u \<Rightarrow>
                    postMessage (InvokeResult reqId False None
                      (Some (js_String (JError ''DataCloneError''
                                          (js_String u @ '' could not be cloned.''))))) w))"

text \<open>\<open>handleInvocation(msg)\<close>, run to the end of the promise it returns.\<close>

fun handleInvocation :: "plugin_code \<Rightarrow> MainToWorkerMessage \<Rightarrow> worker \<Rightarrow> worker" where
  "handleInvocation code (InvokeTool reqId toolName args) w =
     (case map_of (toolHandlers w) toolName of
        None \<Rightarrow> postMessage (InvokeResult reqId False None (Some (''tool not found: '' @ toolName))) w
      | Some handler \<Rightarrow> post_outcome reqId True (code handler [args]) w)"
| "handleInvocation code (InvokeHook reqId hookName handlerId event) w =
     (case map_of (hookHandlers w) handlerId of
        None \<Rightarrow> postMessage (InvokeResult reqId True (Some JUndefined) None) w
      | Some handler \<Rightarrow> post_outcome reqId True (code handler [event]) w)"
| "handleInvocation code (InvokeServiceStart reqId serviceId) w =
     (case map_of (serviceHandlers w) serviceId of
        None \<Rightarrow> post_outcome reqId False (Returns JUndefined) w
      | Some svc \<Rightarrow>
          (case start svc of
             None \<Rightarrow> post_outcome reqId False (Returns JUndefined) w
           | Some f \<Rightarrow> post_outcome reqId False (code f []) w))"
| "handleInvocation code (InvokeServiceStop reqId serviceId) w =
     (case map_of (serviceHandlers w) serviceId of
        None \<Rightarrow> post_outcome reqId False (Returns JUndefined) w
      | Some svc \<Rightarrow>
          (case stop svc of
             None \<Rightarrow> post_outcome reqId False (Returns JUndefined) w
           | Some f \<Rightarrow> post_outcome reqId False (code f []) w))"
| "handleInvocation code (InvokeCommand reqId commandName args ctx) w =
     (case map_of (commandHandlers w) commandName of
        None \<Rightarrow>
          postMessage (InvokeResult reqId False None (Some (''command not found: '' @ commandName))) w
      | Some handler \<Rightarrow>
          post_outcome reqId True
            (code handler
               [JArray (map JStr args),
                JObject ((case channelId ctx of Some c \<Rightarrow> [(''channelId'', JStr c)] | None \<Rightarrow> []) @
                         (case senderId ctx of Some s \<Rightarrow> [(''senderId'', JStr s)] | None \<Rightarrow> []))]) w)"
| "handleInvocation code (Init init) w = w"



section \<open>The supervisor (main-host.ts)\<close>

definition REGISTRATION_TIMEOUT_MS :: nat where "REGISTRATION_TIMEOUT_MS = 10000"
definition TOOL_INVOKE_TIMEOUT_MS :: nat where "TOOL_INVOKE_TIMEOUT_MS = 60000"
definition HOOK_INVOKE_TIMEOUT_MS :: nat where "HOOK_INVOKE_TIMEOUT_MS = 5000"
definition SERVICE_START_TIMEOUT_MS :: nat where "SERVICE_START_TIMEOUT_MS = 30000"
definition SERVICE_STOP_TIMEOUT_MS :: nat where "SERVICE_STOP_TIMEOUT_MS = 5000"
definition SHUTDOWN_TIMEOUT_MS :: nat where "SHUTDOWN_TIMEOUT_MS = 5000"

text \<open>
  A call of one of the five invocation methods, and its activation: the call suspended at
  \<open>await ready\<close>, with the promise the async method returned to its caller.
\<close>

datatype invocation =
    InvTool string jsval
  | InvHook string string jsval
  | InvServiceStart string
  | InvServiceStop string
  | InvCommand string "string list" InvokeContext

record activation =
  act_call :: invocation
  act_result :: nat

text \<open>
  The state that \<open>createWorkerHost\<close> closes over: \<open>terminated\<close>, the correlator, the ready
  promise, the registration timer and the event loop's promises and timers; the messages
  given to \<open>worker.postMessage\<close>, in order; the activations waiting for the ready promise
  and those whose wait is over (the microtask queue); the promises that follow a request's
  promise (with whether the value is passed on); the pending calls of \<open>terminate\<close> (result
  promise, exit promise, shutdown timer); the calls of the logger and of the
  \<open>onRegister\<close> callbacks; whether \<open>worker.terminate()\<close> was called, and whether
  the worker has exited.
\<close>

record host =
  host_pluginId :: string
  terminated :: bool
  rpc :: RpcCorrelator
  loop :: world
  ready :: nat
  registrationTimer :: nat
  sent :: "MainToWorkerMessage list"
  suspended :: "activation list"
  jobs :: "activation list"
  links :: "(nat \<times> nat \<times> bool) list"
  terminating :: "(nat \<times> nat \<times> nat) list"
  logged :: "(log_level \<times> string \<times> jsval list) list"
  registered :: "WorkerToMainMessage list"
  worker_terminate_called :: bool
  exited :: bool

text \<open>
  \<open>createWorkerHost(params)\<close>: the ready promise, the registration timer, the init message.
\<close>

definition createWorkerHost :: "WorkerInitMessage \<Rightarrow> host" where
  "createWorkerHost params =
     (let (r, w1) = new_promise empty_world;
          (t, w2) = setTimeout RegistrationTimeout w1
      in \<lparr>host_pluginId = pluginId params, terminated = False, rpc = \<lparr>pending = []\<rparr>,
          loop = w2, ready = r, registrationTimer = t, sent = [Init params],
          suspended = [], jobs = [], links = [], terminating = [], logged = [],
          registered = [], worker_terminate_called = False, exited = False\<rparr>)"

text \<open>
  \<open>readyResolve()\<close> and \<open>readyReject(err)\<close>: settling the ready promise ends the wait of
  the activations suspended on it.
\<close>

definition settle_ready :: "pstate \<Rightarrow> host \<Rightarrow> host" where
  "settle_ready out h =
     (if promises (loop h) (ready h) = Pending
      then h\<lparr>loop := settle (ready h) out (loop h), jobs := jobs h @ suspended h, suspended := []\<rparr>
      else h)"

definition host_rejectAll :: "jsval \<Rightarrow> host \<Rightarrow> host" where
  "host_rejectAll err h =
     (let (c, w) = rejectAll err (rpc h, loop h) in h\<lparr>rpc := c, loop := w\<rparr>)"

definition host_clearTimeout :: "nat \<Rightarrow> host \<Rightarrow> host" where
  "host_clearTimeout t h = h\<lparr>loop := clearTimeout t (loop h)\<rparr>"

text \<open>The em dash of the warning text, in UTF-8.\<close>

definition em_dash :: string where
  "em_dash = [CHR 0xE2, CHR 0x80, CHR 0x94]"

text \<open>The listener of \<open>worker.on("message")\<close>.\<close>

fun on_message :: "WorkerToMainMessage \<Rightarrow> host \<Rightarrow> host" where
  "on_message RegistrationComplete h =
     settle_ready (Fulfilled JUndefined) (host_clearTimeout (registrationTimer h) h)"
| "on_message (RegistrationError error) h =
     settle_ready
       (Rejected (new_Error (''plugin '' @ host_pluginId h @ '' registration failed: '' @ error)))
       (host_clearTimeout (registrationTimer h) h)"
| "on_message (RegisterTool descriptor) h = h\<lparr>registered := registered h @ [RegisterTool descriptor]\<rparr>"
| "on_message (RegisterHook hookName handlerId priority) h =
     h\<lparr>registered := registered h @ [RegisterHook hookName handlerId priority]\<rparr>"
| "on_message (RegisterService serviceId) h =
     h\<lparr>registered := registered h @ [RegisterService serviceId]\<rparr>"
| "on_message (RegisterCommand n d u) h = h\<lparr>registered := registered h @ [RegisterCommand n d u]\<rparr>"
| "on_message (InvokeResult reqId ok v error) h =
     (if ok
      then (let (c, w) = snd (rpc_resolve reqId (case v of Some x \<Rightarrow> x | None \<Rightarrow> JUndefined)
                                 (rpc h, loop h))
            in h\<lparr>rpc := c, loop := w\<rparr>)
      else (let (c, w) = snd (rpc_reject reqId
                                 (new_Error (case error of Some e \<Rightarrow> e
                                             | None \<Rightarrow> ''unknown worker error''))
                                 (rpc h, loop h))
            in h\<lparr>rpc := c, loop := w\<rparr>))"
| "on_message (Log level message args) h =
     h\<lparr>logged := logged h @
        [(level, ''[worker:'' @ host_pluginId h @ ''] '' @ message,
          (case args of Some a \<Rightarrow> a | None \<Rightarrow> []))]\<rparr>"
| "on_message (UnsupportedApi method error) h =
     h\<lparr>logged := logged h @
        [(Warn, ''[worker:'' @ host_pluginId h @ ''] unsupported API call: '' @ method @
                '' '' @ em_dash @ '' '' @ error, [])]\<rparr>"

text \<open>The listener of \<open>worker.on("error")\<close>.\<close>

definition on_error :: "jsval \<Rightarrow> host \<Rightarrow> host" where
  "on_error err h =
     (let h1 = host_clearTimeout (registrationTimer h) h;
          h2 = settle_ready (Rejected (case err of JError n m \<Rightarrow> err | _ \<Rightarrow> new_Error (js_String err))) h1
      in host_rejectAll (new_Error (''worker crashed: '' @ js_String err)) h2)"

text \<open>
  The exit of the worker with \<open>code\<close> (a worker exits once): the listener of
  \<open>worker.on("exit")\<close>, then the listeners that pending \<open>terminate\<close> calls added with
  \<open>once\<close>, each call of \<open>terminate\<close> completing when the worker has exited.
\<close>

definition on_exit_listener :: "int \<Rightarrow> host \<Rightarrow> host" where
  "on_exit_listener code h =
     (if code \<noteq> 0
      then (let err = new_Error (''worker exited with code '' @ show_int code);
                h1 = settle_ready (Rejected err) h
            in host_rejectAll err h1)
      else h)"

fun finish_terminate :: "(nat \<times> nat \<times> nat) list \<Rightarrow> world \<Rightarrow> world" where
  "finish_terminate [] w = w"
| "finish_terminate ((result, exitPromise, t) # rest) w =
     finish_terminate rest
       (settle result (Fulfilled JUndefined)
          (settle exitPromise (Fulfilled JUndefined) (clearTimeout t w)))"

definition on_exit :: "int \<Rightarrow> host \<Rightarrow> host" where
  "on_exit code h =
     (if exited h then h
      else (let h1 = on_exit_listener code h
            in h1\<lparr>loop := finish_terminate (terminating h1) (loop h1), terminating := [],
                  exited := True\<rparr>))"

text \<open>
  A timer of the event loop firing. Where the worker had exited before \<open>terminate\<close> was
  called, no exit event comes and the call completes when its shutdown timer fires.
\<close>

definition fire_timer :: "nat \<Rightarrow> host \<Rightarrow> host" where
  "fire_timer t h =
     (case timers (loop h) t of
        None \<Rightarrow> h
      | Some (RpcTimeout reqId timeoutMs p) \<Rightarrow>
          (let (c, w) = timeout_callback reqId timeoutMs p (rpc h, clearTimeout t (loop h))
           in h\<lparr>rpc := c, loop := w\<rparr>)
      | Some RegistrationTimeout \<Rightarrow>
          settle_ready
            (Rejected (new_Error (''plugin '' @ host_pluginId h @ '' registration timed out after '' @
                                  show_nat REGISTRATION_TIMEOUT_MS @ ''ms'')))
            (host_clearTimeout t h)
      | Some (ShutdownTimeout p) \<Rightarrow>
          (let w1 = settle p (Fulfilled JUndefined) (clearTimeout t (loop h))
           in if exited h
              then h\<lparr>loop := finish_terminate [x \<leftarrow> terminating h. fst (snd x) = p] w1,
                     terminating := [x \<leftarrow> terminating h. fst (snd x) \<noteq> p]\<rparr>
              else h\<lparr>loop := w1\<rparr>))"

fun invoke_timeout :: "invocation \<Rightarrow> nat" where
  "invoke_timeout (InvTool _ _) = TOOL_INVOKE_TIMEOUT_MS"
| "invoke_timeout (InvHook _ _ _) = HOOK_INVOKE_TIMEOUT_MS"
| "invoke_timeout (InvServiceStart _) = SERVICE_START_TIMEOUT_MS"
| "invoke_timeout (InvServiceStop _) = SERVICE_STOP_TIMEOUT_MS"
| "invoke_timeout (InvCommand _ _ _) = TOOL_INVOKE_TIMEOUT_MS"

fun invoke_message :: "invocation \<Rightarrow> string \<Rightarrow> MainToWorkerMessage" where
  "invoke_message (InvTool toolName args) reqId = InvokeTool reqId toolName args"
| "invoke_message (InvHook hookName handlerId event) reqId = InvokeHook reqId hookName handlerId event"
| "invoke_message (InvServiceStart serviceId) reqId = InvokeServiceStart reqId serviceId"
| "invoke_message (InvServiceStop serviceId) reqId = InvokeServiceStop reqId serviceId"
| "invoke_message (InvCommand commandName args ctx) reqId = InvokeCommand reqId commandName args ctx"

text \<open>
  Whether the method returns the request's promise (\<open>return promise\<close>) or awaits it and
  returns nothing (\<open>await promise\<close>).
\<close>

fun returns_promise :: "invocation \<Rightarrow> bool" where
  "returns_promise (InvServiceStart _) = False"
| "returns_promise (InvServiceStop _) = False"
| "returns_promise _ = True"

text \<open>
  An async method that throws, or returns, before its first \<open>await\<close>: the promise it
  gives its caller is already rejected, or fulfilled; nothing else has happened.
\<close>

definition async_throw :: "jsval \<Rightarrow> host \<Rightarrow> nat \<times> host" where
  "async_throw err h =
     (let (p, w1) = new_promise (loop h) in (p, h\<lparr>loop := settle p (Rejected err) w1\<rparr>))"

definition async_return :: "jsval \<Rightarrow> host \<Rightarrow> nat \<times> host" where
  "async_return v h =
     (let (p, w1) = new_promise (loop h) in (p, h\<lparr>loop := settle p (Fulfilled v) w1\<rparr>))"

text \<open>
  The body shared by the five invocation methods, up to \<open>await ready\<close>: the result is the
  promise the async method returns.
\<close>

definition invoke :: "invocation \<Rightarrow> host \<Rightarrow> nat \<times> host" where
  "invoke call h =
     (if terminated h then async_throw (new_Error ''worker terminated'') h
      else (let (p, w1) = new_promise (loop h);
                h1 = h\<lparr>loop := w1\<rparr>
            in if promises w1 (ready h) = Pending
               then (p, h1\<lparr>suspended := suspended h @ [\<lparr>act_call = call, act_result = p\<rparr>]\<rparr>)
               else (p, h1\<lparr>jobs := jobs h @ [\<lparr>act_call = call, act_result = p\<rparr>]\<rparr>)))"

definition invokeTool :: "string \<Rightarrow> jsval \<Rightarrow> host \<Rightarrow> nat \<times> host" where
  "invokeTool toolName args h = invoke (InvTool toolName args) h"

definition invokeHook :: "string \<Rightarrow> string \<Rightarrow> jsval \<Rightarrow> host \<Rightarrow> nat \<times> host" where
  "invokeHook hookName handlerId event h = invoke (InvHook hookName handlerId event) h"

definition invokeServiceStart :: "string \<Rightarrow> host \<Rightarrow> nat \<times> host" where
  "invokeServiceStart serviceId h = invoke (InvServiceStart serviceId) h"

definition invokeServiceStop :: "string \<Rightarrow> host \<Rightarrow> nat \<times> host" where
  "invokeServiceStop serviceId h = invoke (InvServiceStop serviceId) h"

definition invokeCommand :: "string \<Rightarrow> string list \<Rightarrow> InvokeContext \<Rightarrow> host \<Rightarrow> nat \<times> host" where
  "invokeCommand commandName args ctx h = invoke (InvCommand commandName args ctx) h"

text \<open>
  The rest of an invocation method, run as a microtask once the ready promise is settled:
  a rejected ready promise rejects the method's promise; else the request is created (with
  the identifier \<open>reqId\<close> that \<open>randomUUID\<close> gives), the message posted, and the method's
  promise follows the request's.
\<close>

definition resume :: "string \<Rightarrow> activation \<Rightarrow> host \<Rightarrow> host" where
  "resume reqId act h =
     (case promises (loop h) (ready h) of
        Pending \<Rightarrow> h\<lparr>suspended := suspended h @ [act]\<rparr>
      | Rejected e \<Rightarrow> h\<lparr>loop := settle (act_result act) (Rejected e) (loop h)\<rparr>
      | Fulfilled u \<Rightarrow>
          (let ((rid, promise), (c, w)) =
                 createRequest (invoke_timeout (act_call act)) reqId (rpc h, loop h)
           in h\<lparr>rpc := c, loop := w, sent := sent h @ [invoke_message (act_call act) rid],
                links := links h @ [(act_result act, promise, returns_promise (act_call act))]\<rparr>))"

definition run_job :: "string \<Rightarrow> host \<Rightarrow> host" where
  "run_job reqId h =
     (case jobs h of [] \<Rightarrow> h | act # rest \<Rightarrow> resume reqId act (h\<lparr>jobs := rest\<rparr>))"

text \<open>
  \<open>terminate()\<close>, up to \<open>await worker.terminate()\<close>; the call completes at the exit of the
  worker.
\<close>

definition terminate :: "host \<Rightarrow> nat \<times> host" where
  "terminate h =
     (if terminated h then async_return JUndefined h
      else (let (p, w1) = new_promise (loop h);
                h1 = h\<lparr>loop := w1, terminated := True\<rparr>;
                h2 = host_rejectAll (new_Error ''worker terminated'') h1;
                (exitPromise, w3) = new_promise (loop h2);
                (t, w4) = setTimeout (ShutdownTimeout exitPromise) w3
            in (p, h2\<lparr>loop := w4, terminating := terminating h2 @ [(p, exitPromise, t)],
                      worker_terminate_called := True\<rparr>)))"

text \<open>
  What the caller of an invocation method observes of the promise it was given: its own
  state, or that of the request's promise it follows.
\<close>

definition observed :: "host \<Rightarrow> nat \<Rightarrow> pstate" where
  "observed h p =
     (case map_of (links h) p of
        None \<Rightarrow> promises (loop h) p
      | Some (q, keep) \<Rightarrow>
          (case promises (loop h) q of
             Fulfilled v \<Rightarrow> Fulfilled (if keep then v else JUndefined)
           | other \<Rightarrow> other))"

text \<open>The events of a supervisor's life, in any order.\<close>

datatype host_event =
    Message WorkerToMainMessage
  | WorkerError jsval
  | WorkerExit int
  | TimerFires nat
  | RunJob string
  | CallInvoke invocation
  | CallTerminate

fun host_step :: "host_event \<Rightarrow> host \<Rightarrow> host" where
  "host_step (Message m) h = on_message m h"
| "host_step (WorkerError err) h = on_error err h"
| "host_step (WorkerExit code) h = on_exit code h"
| "host_step (TimerFires t) h = fire_timer t h"
| "host_step (RunJob reqId) h = run_job reqId h"
| "host_step (CallInvoke call) h = snd (invoke call h)"
| "host_step CallTerminate h = snd (terminate h)"

definition host_run :: "host_event list \<Rightarrow> host \<Rightarrow> host" where
  "host_run evs h = fold host_step evs h"

text \<open>The parameters of a test plugin.\<close>

definition test_params :: WorkerInitMessage where
  "test_params = \<lparr>pluginId = ''test-minimal'', pluginSource = ''minimal-plugin.ts'',
     pluginConfig = None,
     metadata = \<lparr>meta_id = ''test-minimal'', meta_name = ''Test Minimal'', meta_version = None,
                 meta_description = None\<rparr>,
     jitiAlias = None\<rparr>"


section \<open>Properties of the correlator\<close>

lemma timers_settle [simp]: "timers (settle p out w) = timers w"
  by (simp add: settle_def)

lemma fresh_settle [simp]: "fresh (settle p out w) = fresh w"
  by (simp add: settle_def)

lemma promises_settle:
  "promises (settle p out w) q = (if q = p \<and> promises w p = Pending then out else promises w q)"
  by (simp add: settle_def)

lemma promises_clearTimeout [simp]: "promises (clearTimeout h w) = promises w"
  by (simp add: clearTimeout_def)

lemma timers_clearTimeout [simp]: "timers (clearTimeout h w) = (timers w)(h := None)"
  by (simp add: clearTimeout_def)

lemma fresh_clearTimeout [simp]: "fresh (clearTimeout h w) = fresh w"
  by (simp add: clearTimeout_def)

lemma set_delete_conv: "(k', e) \<in> set (AList.delete k al) \<longleftrightarrow> k' \<noteq> k \<and> (k', e) \<in> set al"
  by (auto simp: AList.delete_eq)

lemma set_update_sub: "(k', e) \<in> set (AList.update k v al) \<Longrightarrow> (k', e) = (k, v) \<or> (k', e) \<in> set al"
  by (induction al) (auto split: if_splits)

lemma rpc_inv_pending:
  "rpc_inv (c, w) \<Longrightarrow> (k, e) \<in> set (pending c) \<Longrightarrow>
     resolve e = reject e \<and> promises w (reject e) = Pending \<and>
     (\<exists>ms. timers w (timer e) = Some (RpcTimeout k ms (reject e)))"
  unfolding rpc_inv_def fst_conv snd_conv by blast

lemma rpc_inv_fresh:
  "rpc_inv (c, w) \<Longrightarrow> timers w h = Some (RpcTimeout k ms p) \<Longrightarrow> h < fresh w \<and> p < fresh w"
  unfolding rpc_inv_def fst_conv snd_conv by blast

lemma rpc_inv_timer_unique:
  "rpc_inv (c, w) \<Longrightarrow> timers w h = Some (RpcTimeout k ms p) \<Longrightarrow>
     timers w h' = Some (RpcTimeout k' ms' p) \<Longrightarrow> h = h'"
  unfolding rpc_inv_def fst_conv snd_conv by blast

lemma rpc_inv_distinct: "rpc_inv (c, w) \<Longrightarrow> distinct (map fst (pending c))"
  unfolding rpc_inv_def by simp

lemma rpc_invI:
  assumes "\<And>k e. (k, e) \<in> set (pending c) \<Longrightarrow>
     resolve e = reject e \<and> promises w (reject e) = Pending \<and>
     (\<exists>ms. timers w (timer e) = Some (RpcTimeout k ms (reject e)))"
    and "\<And>h k ms p. timers w h = Some (RpcTimeout k ms p) \<Longrightarrow> h < fresh w \<and> p < fresh w"
    and "\<And>h h' k k' ms ms' p. timers w h = Some (RpcTimeout k ms p) \<Longrightarrow>
     timers w h' = Some (RpcTimeout k' ms' p) \<Longrightarrow> h = h'"
    and "distinct (map fst (pending c))"
  shows "rpc_inv (c, w)"
  unfolding rpc_inv_def fst_conv snd_conv using assms by blast

lemma inv_empty: "rpc_inv empty_rpc"
  by (simp add: rpc_inv_def empty_rpc_def empty_world_def)

lemma inv_createRequest:
  assumes "rpc_inv s"
  shows "rpc_inv (snd (createRequest timeoutMs reqId s))"
proof -
  obtain c w where s: "s = (c, w)" by (cases s)
  note inv = assms[unfolded s]
  note A = rpc_inv_pending[OF inv] and B = rpc_inv_fresh[OF inv]
    and C = rpc_inv_timer_unique[OF inv] and D = rpc_inv_distinct[OF inv]
  let ?p = "fresh w" and ?t = "Suc (fresh w)"
  let ?w' = "w\<lparr>promises := (promises w)(?p := Pending), timers := (timers w)(?t \<mapsto> RpcTimeout reqId timeoutMs ?p), fresh := Suc (Suc (fresh w))\<rparr>"
  let ?c' = "c\<lparr>pending := AList.update reqId \<lparr>resolve = ?p, reject = ?p, timer = ?t\<rparr> (pending c)\<rparr>"
  have res: "snd (createRequest timeoutMs reqId s) = (?c', ?w')"
    by (simp add: createRequest_def s new_promise_def setTimeout_def)
  have A': "resolve e = reject e \<and> promises ?w' (reject e) = Pending \<and>
        (\<exists>ms. timers ?w' (timer e) = Some (RpcTimeout k ms (reject e)))"
    if "(k, e) \<in> set (pending ?c')" for k e
  proof -
    from that have "(k, e) = (reqId, \<lparr>resolve = ?p, reject = ?p, timer = ?t\<rparr>) \<or> (k, e) \<in> set (pending c)"
      using set_update_sub by fastforce
    then show ?thesis
    proof
      assume "(k, e) = (reqId, \<lparr>resolve = ?p, reject = ?p, timer = ?t\<rparr>)"
      then show ?thesis by auto
    next
      assume m: "(k, e) \<in> set (pending c)"
      from A[OF m] obtain ms where 1: "resolve e = reject e" "promises w (reject e) = Pending"
        "timers w (timer e) = Some (RpcTimeout k ms (reject e))" by auto
      from B[OF 1(3)] have "timer e < fresh w" "reject e < fresh w" by auto
      with 1 show ?thesis by auto
    qed
  qed
  have B': "h < fresh ?w' \<and> p < fresh ?w'" if "timers ?w' h = Some (RpcTimeout k ms p)" for h k ms p
    using that B[of h k ms p] by (auto split: if_splits)
  have C': "h = h'" if "timers ?w' h = Some (RpcTimeout k ms p)" "timers ?w' h' = Some (RpcTimeout k' ms' p)"
    for h h' k k' ms ms' p
    using that B[of h k ms p] B[of h' k' ms' p] C[of h k ms p h' k' ms'] by (auto split: if_splits)
  have D': "distinct (map fst (pending ?c'))"
    using D by (simp add: distinct_update)
  show ?thesis
    unfolding res by (rule rpc_invI) (use A' B' C' D' in blast)+
qed


text \<open>Removing the entry of \<open>k\<close> and settling its promise, with its timer unscheduled.\<close>

lemma inv_remove:
  assumes inv: "rpc_inv (c, w)"
    and t: "timers w h = Some (RpcTimeout k ms p)"
  shows "rpc_inv (c\<lparr>pending := AList.delete k (pending c)\<rparr>, settle p out (clearTimeout h w))"
proof (rule rpc_invI)
  note A = rpc_inv_pending[OF inv] and B = rpc_inv_fresh[OF inv]
    and C = rpc_inv_timer_unique[OF inv] and D = rpc_inv_distinct[OF inv]
  fix k' e assume "(k', e) \<in> set (pending (c\<lparr>pending := AList.delete k (pending c)\<rparr>))"
  then have ne: "k' \<noteq> k" and m: "(k', e) \<in> set (pending c)"
    by (simp_all add: set_delete_conv)
  from A[OF m] obtain ms' where 1: "resolve e = reject e" "promises w (reject e) = Pending"
    "timers w (timer e) = Some (RpcTimeout k' ms' (reject e))" by auto
  have "timer e \<noteq> h" using 1(3) t ne by auto
  moreover have "reject e \<noteq> p" using C[OF 1(3), of h k ms] t ne 1(3) by auto
  ultimately show "resolve e = reject e \<and>
     promises (settle p out (clearTimeout h w)) (reject e) = Pending \<and>
     (\<exists>ms. timers (settle p out (clearTimeout h w)) (timer e) = Some (RpcTimeout k' ms (reject e)))"
    using 1 by (simp add: promises_settle)
next
  fix h' k' ms' p'
  assume "timers (settle p out (clearTimeout h w)) h' = Some (RpcTimeout k' ms' p')"
  then show "h' < fresh (settle p out (clearTimeout h w)) \<and> p' < fresh (settle p out (clearTimeout h w))"
    using rpc_inv_fresh[OF inv, of h' k' ms' p'] by (simp split: if_splits)
next
  fix h1 h2 k1 k2 ms1 ms2 p'
  assume "timers (settle p out (clearTimeout h w)) h1 = Some (RpcTimeout k1 ms1 p')"
    "timers (settle p out (clearTimeout h w)) h2 = Some (RpcTimeout k2 ms2 p')"
  then show "h1 = h2"
    using rpc_inv_timer_unique[OF inv, of h1 k1 ms1 p' h2 k2 ms2] by (simp split: if_splits)
next
  show "distinct (map fst (pending (c\<lparr>pending := AList.delete k (pending c)\<rparr>)))"
    using rpc_inv_distinct[OF inv] by (simp add: distinct_delete)
qed

lemma inv_resolve:
  assumes "rpc_inv s"
  shows "rpc_inv (snd (rpc_resolve reqId v s))"
proof -
  obtain c w where s: "s = (c, w)" by (cases s)
  note inv = assms[unfolded s]
  show ?thesis
  proof (cases "map_of (pending c) reqId")
    case None
    then show ?thesis using inv by (simp add: rpc_resolve_def s)
  next
    case (Some e)
    then have m: "(reqId, e) \<in> set (pending c)" by (rule map_of_SomeD)
    from rpc_inv_pending[OF inv m] obtain ms where
      1: "resolve e = reject e" "timers w (timer e) = Some (RpcTimeout reqId ms (reject e))" by auto
    show ?thesis using inv_remove[OF inv 1(2)] Some 1(1) by (simp add: rpc_resolve_def s)
  qed
qed

lemma inv_reject:
  assumes "rpc_inv s"
  shows "rpc_inv (snd (rpc_reject reqId err s))"
proof -
  obtain c w where s: "s = (c, w)" by (cases s)
  note inv = assms[unfolded s]
  show ?thesis
  proof (cases "map_of (pending c) reqId")
    case None
    then show ?thesis using inv by (simp add: rpc_reject_def s)
  next
    case (Some e)
    then have m: "(reqId, e) \<in> set (pending c)" by (rule map_of_SomeD)
    from rpc_inv_pending[OF inv m] obtain ms where
      1: "timers w (timer e) = Some (RpcTimeout reqId ms (reject e))" by auto
    show ?thesis using inv_remove[OF inv 1] Some by (simp add: rpc_reject_def s)
  qed
qed

lemma timers_rejectAll_loop:
  "timers (rejectAll_loop err es w) h =
     (if h \<in> timer ` snd ` set es then None else timers w h)"
proof (induction es arbitrary: w)
  case Nil
  show ?case by simp
next
  case (Cons a es)
  obtain k e where a: "a = (k, e)" by (cases a)
  show ?case unfolding a by (simp add: Cons.IH)
qed

lemma promises_rejectAll_loop:
  "promises (rejectAll_loop err es w) p =
     (if p \<in> reject ` snd ` set es \<and> promises w p = Pending then Rejected err else promises w p)"
proof (induction es arbitrary: w)
  case Nil
  show ?case by simp
next
  case (Cons a es)
  obtain k e where a: "a = (k, e)" by (cases a)
  show ?case unfolding a by (auto simp add: Cons.IH promises_settle)
qed

lemma fresh_rejectAll_loop [simp]: "fresh (rejectAll_loop err es w) = fresh w"
  by (induction err es w rule: rejectAll_loop.induct) auto

lemma inv_rejectAll:
  assumes "rpc_inv s"
  shows "rpc_inv (rejectAll err s)"
proof -
  obtain c w where s: "s = (c, w)" by (cases s)
  note inv = assms[unfolded s]
  have "rpc_inv (c\<lparr>pending := []\<rparr>, rejectAll_loop err (pending c) w)"
  proof (rule rpc_invI)
    fix h k ms p
    assume "timers (rejectAll_loop err (pending c) w) h = Some (RpcTimeout k ms p)"
    then show "h < fresh (rejectAll_loop err (pending c) w) \<and> p < fresh (rejectAll_loop err (pending c) w)"
      using rpc_inv_fresh[OF inv, of h k ms p] by (simp add: timers_rejectAll_loop split: if_splits)
  next
    fix h1 h2 k1 k2 ms1 ms2 p
    assume "timers (rejectAll_loop err (pending c) w) h1 = Some (RpcTimeout k1 ms1 p)"
      "timers (rejectAll_loop err (pending c) w) h2 = Some (RpcTimeout k2 ms2 p)"
    then show "h1 = h2"
      using rpc_inv_timer_unique[OF inv, of h1 k1 ms1 p h2 k2 ms2]
      by (simp add: timers_rejectAll_loop split: if_splits)
  qed simp_all
  then show ?thesis by (simp add: rejectAll_def s)
qed

lemma inv_fire:
  assumes "rpc_inv s"
  shows "rpc_inv (fire_rpc_timer h s)"
proof -
  obtain c w where s: "s = (c, w)" by (cases s)
  note inv = assms[unfolded s]
  show ?thesis
  proof (cases "timers w h")
    case None
    then show ?thesis using inv by (simp add: fire_rpc_timer_def s)
  next
    case (Some cb)
    show ?thesis
    proof (cases cb)
      case (RpcTimeout k ms p)
      with Some have t: "timers w h = Some (RpcTimeout k ms p)" by simp
      have "settle p out (clearTimeout h (clearTimeout h w)) = settle p out (clearTimeout h w)" for out
        by (simp add: clearTimeout_def)
      then show ?thesis using inv_remove[OF inv t] t
        by (simp add: fire_rpc_timer_def s timeout_callback_def)
    qed (use Some inv in \<open>simp_all add: fire_rpc_timer_def s\<close>)
  qed
qed

lemma inv_step: "rpc_inv s \<Longrightarrow> rpc_inv (rpc_step ev s)"
  by (cases ev) (simp_all add: inv_createRequest inv_resolve inv_reject inv_rejectAll inv_fire)

lemma inv_run: "rpc_inv s \<Longrightarrow> rpc_inv (rpc_run evs s)"
  unfolding rpc_run_def by (induction evs arbitrary: s) (simp_all add: inv_step)


lemma fresh_mono_step: "fresh (snd s) \<le> fresh (snd (rpc_step ev s))"
proof (cases s)
  case (Pair c w)
  show ?thesis
  proof (cases ev)
    case (Fire h)
    then show ?thesis unfolding Pair
      by (simp add: fire_rpc_timer_def timeout_callback_def split: option.splits timer_cb.splits)
  qed (simp_all add: Pair createRequest_def new_promise_def setTimeout_def rpc_resolve_def
        rpc_reject_def rejectAll_def split: option.splits)
qed

lemma timer_step:
  assumes "h < fresh (snd s)"
  shows "timers (snd (rpc_step ev s)) h = None \<or> timers (snd (rpc_step ev s)) h = timers (snd s) h"
proof (cases s)
  case (Pair c w)
  with assms have h: "h < fresh w" by simp
  show ?thesis
  proof (cases ev)
    case (Fire h')
    then show ?thesis unfolding Pair
      by (simp add: fire_rpc_timer_def timeout_callback_def split: option.splits timer_cb.splits)
  next
    case (Create ms k)
    then show ?thesis unfolding Pair using h
      by (simp add: createRequest_def new_promise_def setTimeout_def)
  next
    case (RejectAll err)
    then show ?thesis unfolding Pair by (simp add: rejectAll_def timers_rejectAll_loop)
  qed (simp_all add: Pair rpc_resolve_def rpc_reject_def split: option.splits)
qed

lemma promise_step:
  assumes "p < fresh (snd s)" and "promises (snd s) p \<noteq> Pending"
  shows "promises (snd (rpc_step ev s)) p = promises (snd s) p"
proof (cases s)
  case (Pair c w)
  with assms have p: "p < fresh w" "promises w p \<noteq> Pending" by simp_all
  show ?thesis
  proof (cases ev)
    case (Fire h')
    then show ?thesis unfolding Pair using p
      by (simp add: fire_rpc_timer_def timeout_callback_def promises_settle
          split: option.splits timer_cb.splits)
  next
    case (Create ms k)
    then show ?thesis unfolding Pair using p
      by (simp add: createRequest_def new_promise_def setTimeout_def)
  next
    case (RejectAll err)
    then show ?thesis unfolding Pair using p by (simp add: rejectAll_def promises_rejectAll_loop)
  next
    case (Resolve k v)
    show ?thesis
    proof (cases "map_of (pending c) k")
      case None
      then show ?thesis by (simp add: Resolve Pair rpc_resolve_def)
    next
      case (Some e)
      have "promises (settle (resolve e) (Fulfilled v) (clearTimeout (timer e) w)) p = promises w p"
        using p by (auto simp add: promises_settle)
      then show ?thesis by (simp add: Resolve Pair rpc_resolve_def Some)
    qed
  next
    case (Reject k err)
    show ?thesis
    proof (cases "map_of (pending c) k")
      case None
      then show ?thesis by (simp add: Reject Pair rpc_reject_def)
    next
      case (Some e)
      have "promises (settle (reject e) (Rejected err) (clearTimeout (timer e) w)) p = promises w p"
        using p by (auto simp add: promises_settle)
      then show ?thesis by (simp add: Reject Pair rpc_reject_def Some)
    qed
  qed
qed

lemma cleared_run:
  "h < fresh (snd s) \<Longrightarrow> timers (snd s) h = None \<Longrightarrow> timers (snd (rpc_run evs s)) h = None"
  unfolding rpc_run_def
proof (induction evs arbitrary: s)
  case Nil
  then show ?case by simp
next
  case (Cons ev evs)
  have "h < fresh (snd (rpc_step ev s))"
    using Cons.prems(1) fresh_mono_step[of s ev] by simp
  moreover have "timers (snd (rpc_step ev s)) h = None"
    using timer_step[OF Cons.prems(1), of ev] Cons.prems(2) by auto
  ultimately show ?case using Cons.IH by simp
qed

lemma timer_run:
  "h < fresh (snd s) \<Longrightarrow>
     timers (snd (rpc_run evs s)) h = None \<or> timers (snd (rpc_run evs s)) h = timers (snd s) h"
  unfolding rpc_run_def
proof (induction evs arbitrary: s)
  case Nil
  then show ?case by simp
next
  case (Cons ev evs)
  have "h < fresh (snd (rpc_step ev s))"
    using Cons.prems(1) fresh_mono_step[of s ev] by simp
  from Cons.IH[OF this] timer_step[OF Cons.prems(1), of ev] show ?case by auto
qed

lemma settled_run:
  "p < fresh (snd s) \<Longrightarrow> promises (snd s) p \<noteq> Pending \<Longrightarrow>
     promises (snd (rpc_run evs s)) p = promises (snd s) p"
  unfolding rpc_run_def
proof (induction evs arbitrary: s)
  case Nil
  then show ?case by simp
next
  case (Cons ev evs)
  have 1: "p < fresh (snd (rpc_step ev s))"
    using Cons.prems(1) fresh_mono_step[of s ev] by simp
  have 2: "promises (snd (rpc_step ev s)) p = promises (snd s) p"
    by (rule promise_step[OF Cons.prems])
  with Cons.prems(2) have "promises (snd (rpc_step ev s)) p \<noteq> Pending" by simp
  from Cons.IH[OF 1 this] 2 show ?case by simp
qed

lemma map_of_delete_same [simp]: "map_of (AList.delete k al) k = None"
  by (simp add: AList.delete_eq map_of_eq_None_iff image_iff)

lemma resolved_never_times_out:
  assumes inv: "rpc_inv s" and pend: "map_of (pending (fst s)) reqId = Some e"
  shows "timers (snd (rpc_run evs (snd (rpc_resolve reqId v s)))) (timer e) = None \<and>
         promises (snd (rpc_run evs (snd (rpc_resolve reqId v s)))) (resolve e) = Fulfilled v"
proof -
  obtain c w where s: "s = (c, w)" by (cases s)
  from pend have m: "(reqId, e) \<in> set (pending c)" unfolding s by (simp add: map_of_SomeD)
  from rpc_inv_pending[OF inv[unfolded s] m] obtain ms where
    1: "resolve e = reject e" "promises w (reject e) = Pending"
      "timers w (timer e) = Some (RpcTimeout reqId ms (reject e))" by auto
  from rpc_inv_fresh[OF inv[unfolded s] 1(3)] have 2: "timer e < fresh w" "reject e < fresh w" by auto
  let ?s' = "snd (rpc_resolve reqId v s)"
  have s': "?s' = (c\<lparr>pending := AList.delete reqId (pending c)\<rparr>,
      settle (resolve e) (Fulfilled v) (clearTimeout (timer e) w))"
    using pend by (simp add: rpc_resolve_def s)
  have a: "timer e < fresh (snd ?s')" "timers (snd ?s') (timer e) = None"
    "resolve e < fresh (snd ?s')" "promises (snd ?s') (resolve e) = Fulfilled v"
    using 1 2 by (simp_all add: s' promises_settle)
  from cleared_run[OF a(1,2)] settled_run[OF a(3), of evs] a(4) show ?thesis by simp
qed

lemma rejected_never_times_out:
  assumes inv: "rpc_inv s" and pend: "map_of (pending (fst s)) reqId = Some e"
  shows "timers (snd (rpc_run evs (snd (rpc_reject reqId err s)))) (timer e) = None \<and>
         promises (snd (rpc_run evs (snd (rpc_reject reqId err s)))) (reject e) = Rejected err"
proof -
  obtain c w where s: "s = (c, w)" by (cases s)
  from pend have m: "(reqId, e) \<in> set (pending c)" unfolding s by (simp add: map_of_SomeD)
  from rpc_inv_pending[OF inv[unfolded s] m] obtain ms where
    1: "resolve e = reject e" "promises w (reject e) = Pending"
      "timers w (timer e) = Some (RpcTimeout reqId ms (reject e))" by auto
  from rpc_inv_fresh[OF inv[unfolded s] 1(3)] have 2: "timer e < fresh w" "reject e < fresh w" by auto
  let ?s' = "snd (rpc_reject reqId err s)"
  have s': "?s' = (c\<lparr>pending := AList.delete reqId (pending c)\<rparr>,
      settle (reject e) (Rejected err) (clearTimeout (timer e) w))"
    using pend by (simp add: rpc_reject_def s)
  have a: "timer e < fresh (snd ?s')" "timers (snd ?s') (timer e) = None"
    "reject e < fresh (snd ?s')" "promises (snd ?s') (reject e) = Rejected err"
    using 1 2 by (simp_all add: s' promises_settle)
  from cleared_run[OF a(1,2)] settled_run[OF a(3), of evs] a(4) show ?thesis by simp
qed

lemma timeout_rejects:
  assumes inv: "rpc_inv s"
    and pend: "map_of (pending (fst (rpc_run evs (snd (createRequest timeoutMs reqId s))))) reqId =
      Some \<lparr>resolve = fresh (snd s), reject = fresh (snd s), timer = Suc (fresh (snd s))\<rparr>"
  shows "map_of (pending (fst (fire_rpc_timer (Suc (fresh (snd s)))
            (rpc_run evs (snd (createRequest timeoutMs reqId s)))))) reqId = None \<and>
         promises (snd (fire_rpc_timer (Suc (fresh (snd s)))
            (rpc_run evs (snd (createRequest timeoutMs reqId s))))) (fresh (snd s)) =
           Rejected (new_Error (''RPC timeout after '' @ show_nat timeoutMs @ ''ms (reqId: '' @ reqId @ '')''))"
proof -
  obtain c w where s: "s = (c, w)" by (cases s)
  let ?s1 = "snd (createRequest timeoutMs reqId s)"
  let ?s2 = "rpc_run evs ?s1"
  let ?e = "\<lparr>resolve = fresh w, reject = fresh w, timer = Suc (fresh w)\<rparr>"
  obtain c2 w2 where s2: "?s2 = (c2, w2)" by (cases ?s2)
  have inv2: "rpc_inv (c2, w2)"
    using inv_run[OF inv_createRequest[OF inv], of evs timeoutMs reqId] s2 by simp
  have fs: "fresh (snd s) = fresh w" by (simp add: s)
  have t1: "timers (snd ?s1) (Suc (fresh w)) = Some (RpcTimeout reqId timeoutMs (fresh w))"
    and f1: "Suc (fresh w) < fresh (snd ?s1)"
    by (simp_all add: createRequest_def s new_promise_def setTimeout_def)
  have "map_of (pending c2) reqId = Some ?e"
    using pend unfolding fs s2 by simp
  then have m: "(reqId, ?e) \<in> set (pending c2)" by (rule map_of_SomeD)
  from rpc_inv_pending[OF inv2 m] obtain ms where
    p2: "promises w2 (fresh w) = Pending"
    and t2: "timers w2 (Suc (fresh w)) = Some (RpcTimeout reqId ms (fresh w))" by auto
  have "timers (snd ?s2) (Suc (fresh w)) = None \<or>
        timers (snd ?s2) (Suc (fresh w)) = timers (snd ?s1) (Suc (fresh w))"
    by (rule timer_run[OF f1])
  then have "ms = timeoutMs" unfolding s2 t1 using t2 by simp
  with t2 have fire: "fire_rpc_timer (Suc (fresh w)) (c2, w2) =
      (c2\<lparr>pending := AList.delete reqId (pending c2)\<rparr>,
       settle (fresh w) (Rejected (new_Error (timeout_message timeoutMs reqId)))
         (clearTimeout (Suc (fresh w)) w2))"
    by (simp add: fire_rpc_timer_def timeout_callback_def)
  show ?thesis unfolding fs s2 fire using p2
    by (simp add: promises_settle timeout_message_def)
qed

lemma rpc_inv_reachable: "rpc_inv (rpc_run evs empty_rpc)"
  by (rule inv_run[OF inv_empty])

lemma fire_cleared: "timers (snd s) h = None \<Longrightarrow> fire_rpc_timer h s = s"
  by (cases s) (simp add: fire_rpc_timer_def)

text \<open>
  C5. For a request id unknown to the correlator, resolve and reject return false and leave
  the state as it is. An id is unknown once it was resolved, rejected or timed out, so a
  duplicate or late invoke:result message for it leaves the supervisor as it is.
\<close>

theorem resolve_reject_unknown_id:
  "(map_of (pending (fst s)) reqId = None \<longrightarrow>
      rpc_resolve reqId v s = (False, s) \<and> rpc_reject reqId err s = (False, s)) \<and>
   map_of (pending (fst (snd (rpc_resolve reqId v s)))) reqId = None \<and>
   map_of (pending (fst (snd (rpc_reject reqId err s)))) reqId = None \<and>
   map_of (pending (fst (timeout_callback reqId timeoutMs p s))) reqId = None \<and>
   map_of (pending (fst (rejectAll err s))) reqId = None \<and>
   (map_of (pending (rpc h)) reqId = None \<longrightarrow> on_message (InvokeResult reqId ok r error) h = h)"
proof -
  obtain c w where s: "s = (c, w)" by (cases s)
  have 1: "map_of (pending c) reqId = None \<longrightarrow>
      rpc_resolve reqId v s = (False, s) \<and> rpc_reject reqId err s = (False, s)"
    by (simp add: rpc_resolve_def rpc_reject_def s)
  have 2: "map_of (pending (fst (snd (rpc_resolve reqId v s)))) reqId = None"
    by (cases "map_of (pending c) reqId") (simp_all add: rpc_resolve_def s)
  have 3: "map_of (pending (fst (snd (rpc_reject reqId err s)))) reqId = None"
    by (cases "map_of (pending c) reqId") (simp_all add: rpc_reject_def s)
  have 4: "map_of (pending (fst (timeout_callback reqId timeoutMs p s))) reqId = None"
    by (simp add: timeout_callback_def s)
  have 5: "map_of (pending (fst (rejectAll err s))) reqId = None"
    by (simp add: rejectAll_def s)
  have 6: "on_message (InvokeResult reqId ok r error) h = h"
    if "map_of (pending (rpc h)) reqId = None"
    using that by (simp add: rpc_resolve_def rpc_reject_def)
  from 1 2 3 4 5 6 show ?thesis by (simp add: s)
qed

theorem resolve_reject_unknown_id_witness:
  "rpc_resolve ''never-created'' JNull empty_rpc = (False, empty_rpc) \<and>
   rpc_reject ''never-created'' (new_Error ''late'') empty_rpc = (False, empty_rpc)"
  using resolve_reject_unknown_id[of empty_rpc "''never-created''" JNull "new_Error ''late''"]
  by (simp add: empty_rpc_def)

text \<open>
  C6. rejectAll empties the table (size 0), unschedules the timer of every entry that was
  pending, and rejects with the given error every promise of such an entry that was still
  unsettled; where the invariant of the correlator holds, that is every one of them.
\<close>

theorem rejectAll_rejects_everything:
  "rpc_size (rejectAll err s) = 0 \<and>
   (\<forall>(k, e) \<in> set (pending (fst s)).
      timers (snd (rejectAll err s)) (timer e) = None \<and>
      (promises (snd s) (reject e) = Pending \<longrightarrow>
         promises (snd (rejectAll err s)) (reject e) = Rejected err) \<and>
      (rpc_inv s \<longrightarrow> promises (snd (rejectAll err s)) (reject e) = Rejected err))"
proof -
  obtain c w where s: "s = (c, w)" by (cases s)
  have size: "rpc_size (rejectAll err s) = 0"
    by (simp add: rejectAll_def rpc_size_def s)
  have entry: "timers (snd (rejectAll err s)) (timer e) = None \<and>
      (promises (snd s) (reject e) = Pending \<longrightarrow>
         promises (snd (rejectAll err s)) (reject e) = Rejected err) \<and>
      (rpc_inv s \<longrightarrow> promises (snd (rejectAll err s)) (reject e) = Rejected err)"
    if m: "(k, e) \<in> set (pending c)" for k e
  proof -
    from m have t: "timer e \<in> timer ` snd ` set (pending c)"
      and r: "reject e \<in> reject ` snd ` set (pending c)" by force+
    have a: "timers (snd (rejectAll err s)) (timer e) = None"
      using t by (simp add: rejectAll_def s timers_rejectAll_loop)
    have b: "promises (snd (rejectAll err s)) (reject e) = Rejected err"
      if "promises w (reject e) = Pending"
      using r that by (simp add: rejectAll_def s promises_rejectAll_loop)
    have "promises w (reject e) = Pending" if "rpc_inv s"
      using rpc_inv_pending[OF that[unfolded s] m] by simp
    with a b show ?thesis by (simp add: s)
  qed
  from size entry show ?thesis unfolding s by (simp only: fst_conv) blast
qed

theorem rejectAll_rejects_everything_witness:
  "rpc_size (rejectAll (new_Error ''shutdown'')
      (rpc_run [Create 5000 ''a'', Create 5000 ''b''] empty_rpc)) = 0 \<and>
   promises (snd (rejectAll (new_Error ''shutdown'')
      (rpc_run [Create 5000 ''a'', Create 5000 ''b''] empty_rpc))) 0 = Rejected (new_Error ''shutdown'') \<and>
   promises (snd (rejectAll (new_Error ''shutdown'')
      (rpc_run [Create 5000 ''a'', Create 5000 ''b''] empty_rpc))) (Suc (Suc 0))
     = Rejected (new_Error ''shutdown'') \<and>
   timers (snd (rejectAll (new_Error ''shutdown'')
      (rpc_run [Create 5000 ''a'', Create 5000 ''b''] empty_rpc))) (Suc 0) = None \<and>
   timers (snd (rejectAll (new_Error ''shutdown'')
      (rpc_run [Create 5000 ''a'', Create 5000 ''b''] empty_rpc))) (Suc (Suc (Suc 0))) = None"
proof -
  have st: "pending (fst (rpc_run [Create 5000 ''a'', Create 5000 ''b''] empty_rpc)) =
      [(''a'', \<lparr>resolve = 0, reject = 0, timer = Suc 0\<rparr>),
       (''b'', \<lparr>resolve = Suc (Suc 0), reject = Suc (Suc 0), timer = Suc (Suc (Suc 0))\<rparr>)]"
    by (simp add: rpc_run_def empty_rpc_def empty_world_def createRequest_def new_promise_def
        setTimeout_def)
  have inv: "rpc_inv (rpc_run [Create 5000 ''a'', Create 5000 ''b''] empty_rpc)"
    by (rule rpc_inv_reachable)
  show ?thesis
    using rejectAll_rejects_everything[of "new_Error ''shutdown''"
        "rpc_run [Create 5000 ''a'', Create 5000 ''b''] empty_rpc"] inv
    unfolding st by simp
qed

text \<open>
  C8. In a state of the correlator (its invariant holds), a pending request that is resolved
  or rejected has its timer unscheduled, and through every later run of the correlator the
  timer stays unscheduled, firing it does nothing, and the promise keeps the outcome it was
  given. Conversely, when the timer of a request created with \<open>timeoutMs\<close> fires while the
  request is still in the table, the request is removed and its promise is rejected with an
  Error whose message names \<open>timeoutMs\<close> and the request id.
\<close>

theorem rpc_timer_discipline:
  assumes "rpc_inv s"
  shows "(map_of (pending (fst s)) reqId = Some e \<longrightarrow>
            timers (snd (rpc_run evs (snd (rpc_resolve reqId v s)))) (timer e) = None \<and>
            fire_rpc_timer (timer e) (rpc_run evs (snd (rpc_resolve reqId v s))) =
              rpc_run evs (snd (rpc_resolve reqId v s)) \<and>
            promises (snd (rpc_run evs (snd (rpc_resolve reqId v s)))) (resolve e) = Fulfilled v \<and>
            timers (snd (rpc_run evs (snd (rpc_reject reqId err s)))) (timer e) = None \<and>
            fire_rpc_timer (timer e) (rpc_run evs (snd (rpc_reject reqId err s))) =
              rpc_run evs (snd (rpc_reject reqId err s)) \<and>
            promises (snd (rpc_run evs (snd (rpc_reject reqId err s)))) (reject e) = Rejected err) \<and>
         (map_of (pending (fst (rpc_run evs (snd (createRequest timeoutMs reqId s))))) reqId =
            Some \<lparr>resolve = fresh (snd s), reject = fresh (snd s), timer = Suc (fresh (snd s))\<rparr> \<longrightarrow>
            map_of (pending (fst (fire_rpc_timer (Suc (fresh (snd s)))
               (rpc_run evs (snd (createRequest timeoutMs reqId s)))))) reqId = None \<and>
            promises (snd (fire_rpc_timer (Suc (fresh (snd s)))
               (rpc_run evs (snd (createRequest timeoutMs reqId s))))) (fresh (snd s)) =
              Rejected (new_Error (''RPC timeout after '' @ show_nat timeoutMs @
                                ''ms (reqId: '' @ reqId @ '')'')))"
proof -
  have 1: "timers (snd (rpc_run evs (snd (rpc_resolve reqId v s)))) (timer e) = None \<and>
            fire_rpc_timer (timer e) (rpc_run evs (snd (rpc_resolve reqId v s))) =
              rpc_run evs (snd (rpc_resolve reqId v s)) \<and>
            promises (snd (rpc_run evs (snd (rpc_resolve reqId v s)))) (resolve e) = Fulfilled v"
    if "map_of (pending (fst s)) reqId = Some e"
    using resolved_never_times_out[OF assms that, of evs v] fire_cleared by blast
  have 2: "timers (snd (rpc_run evs (snd (rpc_reject reqId err s)))) (timer e) = None \<and>
            fire_rpc_timer (timer e) (rpc_run evs (snd (rpc_reject reqId err s))) =
              rpc_run evs (snd (rpc_reject reqId err s)) \<and>
            promises (snd (rpc_run evs (snd (rpc_reject reqId err s)))) (reject e) = Rejected err"
    if "map_of (pending (fst s)) reqId = Some e"
    using rejected_never_times_out[OF assms that, of evs err] fire_cleared by blast
  from 1 2 timeout_rejects[OF assms, of evs timeoutMs reqId] show ?thesis by blast
qed

theorem rpc_timer_discipline_witness:
  "promises (snd (rpc_run [Fire 1, Create 2000 ''r2'']
      (snd (rpc_resolve ''r1'' (JStr ''early'') (snd (createRequest 1000 ''r1'' empty_rpc)))))) 0
     = Fulfilled (JStr ''early'') \<and>
   promises (snd (fire_rpc_timer 1 (rpc_run [] (snd (createRequest 1000 ''r1'' empty_rpc))))) 0
     = Rejected (new_Error ''RPC timeout after 1000ms (reqId: r1)'')"
proof -
  have i0: "rpc_inv empty_rpc" by (rule inv_empty)
  have i1: "rpc_inv (snd (createRequest 1000 ''r1'' empty_rpc))"
    by (rule inv_createRequest[OF inv_empty])
  have p1: "map_of (pending (fst (snd (createRequest 1000 ''r1'' empty_rpc)))) ''r1'' =
      Some \<lparr>resolve = 0, reject = 0, timer = 1\<rparr>"
    by (simp add: createRequest_def empty_rpc_def empty_world_def new_promise_def setTimeout_def)
  have p0: "map_of (pending (fst (rpc_run [] (snd (createRequest 1000 ''r1'' empty_rpc))))) ''r1'' =
      Some \<lparr>resolve = fresh (snd empty_rpc), reject = fresh (snd empty_rpc),
            timer = Suc (fresh (snd empty_rpc))\<rparr>"
    by (simp add: rpc_run_def createRequest_def empty_rpc_def empty_world_def new_promise_def setTimeout_def)
  have f0: "fresh (snd empty_rpc) = 0" by (simp add: empty_rpc_def empty_world_def)
  from rpc_timer_discipline[OF i1, where reqId="''r1''" and e="\<lparr>resolve = 0, reject = 0, timer = 1\<rparr>"
      and evs="[Fire 1, Create 2000 ''r2'']" and v="JStr ''early''"] p1
  have a: "promises (snd (rpc_run [Fire 1, Create 2000 ''r2'']
      (snd (rpc_resolve ''r1'' (JStr ''early'') (snd (createRequest 1000 ''r1'' empty_rpc)))))) 0
     = Fulfilled (JStr ''early'')" by simp
  from rpc_timer_discipline[OF i0, where evs="[]" and timeoutMs=1000 and reqId="''r1''"] p0
  have b: "promises (snd (fire_rpc_timer 1 (rpc_run [] (snd (createRequest 1000 ''r1'' empty_rpc))))) 0
     = Rejected (new_Error ''RPC timeout after 1000ms (reqId: r1)'')"
    unfolding f0 by (simp add: digit_char_def)
  from a b show ?thesis by simp
qed

section \<open>Properties of the serializer\<close>









lemma serialize_returns:
  "(\<exists>d. serializeToolDescriptor tool = Inr d) \<longleftrightarrow>
     \<not> (js_truthy (get_prop tool ''parameters'') \<and>
        js_typeof (get_prop tool ''parameters'') = ''object'' \<and>
        (\<exists>e. json_roundtrip (get_prop tool ''parameters'') = Inl e))"
  by (cases "json_roundtrip (get_prop tool ''parameters'')")
    (auto simp: serializeToolDescriptor_def Let_def)



section \<open>Properties of the worker entry point\<close>

lemma handlers_handleInvocation [simp]:
  "toolHandlers (handleInvocation code msg w) = toolHandlers w"
  by (cases msg)
    (simp_all add: postMessage_def post_outcome_def split: option.splits completion.splits)

lemma handlers_fold_handleInvocation [simp]:
  "toolHandlers (fold (handleInvocation code) msgs w) = toolHandlers w"
  by (induction msgs arbitrary: w) simp_all




text \<open>
  C3, as the code has it. A call of each of the six methods of UNSUPPORTED_METHODS posts
  exactly one unsupported:api message naming the method and throws an Error with the same
  text; reading the runtime accessor throws an Error and posts nothing.
\<close>

theorem unsupported_api_calls:
  "set UNSUPPORTED_METHODS =
     {''registerChannel'', ''registerProvider'', ''registerHttpHandler'',
      ''registerHttpRoute'', ''registerGatewayMethod'', ''registerCli''} \<and>
   (\<forall>method \<in> set UNSUPPORTED_METHODS.
      call_unsupported method w =
        (Some (new_Error (method @ '' is not supported in isolated (worker) mode'')),
         w\<lparr>posted := posted w @
              [UnsupportedApi method (method @ '' is not supported in isolated (worker) mode'')]\<rparr>)) \<and>
   get_runtime w = (Some (new_Error ''api.runtime is not available in isolated mode''), w)"
  by (simp add: UNSUPPORTED_METHODS_def call_unsupported_def unsupported_def unsupported_stub_def
      postMessage_def get_runtime_def Let_def)

theorem unsupported_api_calls_witness:
  "call_unsupported ''registerChannel'' empty_worker =
     (Some (new_Error ''registerChannel is not supported in isolated (worker) mode''),
      empty_worker\<lparr>posted :=
        [UnsupportedApi ''registerChannel''
           ''registerChannel is not supported in isolated (worker) mode'']\<rparr>)"
  using unsupported_api_calls[of empty_worker]
  by (simp add: UNSUPPORTED_METHODS_def empty_worker_def)

theorem runtime_accessor_counterexample:
  "get_runtime empty_worker =
     (Some (new_Error ''api.runtime is not available in isolated mode''), empty_worker) \<and>
   posted (snd (get_runtime empty_worker)) = []"
  by (simp add: get_runtime_def empty_worker_def)






section \<open>Properties of the supervisor\<close>

lemma terminated_settle_ready [simp]: "terminated (settle_ready out h) = terminated h"
  by (simp add: settle_ready_def)

lemma terminated_host_clearTimeout [simp]: "terminated (host_clearTimeout t h) = terminated h"
  by (simp add: host_clearTimeout_def)

lemma terminated_host_rejectAll [simp]: "terminated (host_rejectAll err h) = terminated h"
  by (simp add: host_rejectAll_def split: prod.splits)

lemma terminated_on_message [simp]: "terminated (on_message m h) = terminated h"
  by (cases m) (simp_all split: prod.splits)

lemma terminated_on_error [simp]: "terminated (on_error err h) = terminated h"
  by (simp add: on_error_def Let_def)

lemma terminated_on_exit [simp]: "terminated (on_exit code h) = terminated h"
  by (simp add: on_exit_def on_exit_listener_def Let_def)

lemma terminated_fire_timer [simp]: "terminated (fire_timer t h) = terminated h"
  by (simp add: fire_timer_def Let_def split: option.splits timer_cb.splits prod.splits)

lemma terminated_resume [simp]: "terminated (resume reqId act h) = terminated h"
  by (simp add: resume_def split: pstate.splits prod.splits)

lemma terminated_run_job [simp]: "terminated (run_job reqId h) = terminated h"
  by (simp add: run_job_def split: list.splits)

lemma terminated_invoke [simp]: "terminated (snd (invoke call h)) = terminated h"
  by (simp add: invoke_def async_throw_def Let_def split: prod.splits)

lemma terminated_terminate [simp]: "terminated (snd (terminate h))"
  by (simp add: terminate_def async_return_def Let_def split: prod.splits)

lemma terminated_step: "terminated h \<Longrightarrow> terminated (host_step ev h)"
  by (cases ev) simp_all

lemma terminated_run: "terminated h \<Longrightarrow> terminated (host_run evs h)"
  unfolding host_run_def by (induction evs arbitrary: h) (simp_all add: terminated_step)

lemma async_throw_effect:
  "fst (async_throw err h) = fresh (loop h) \<and>
   promises (loop (snd (async_throw err h))) (fst (async_throw err h)) = Rejected err \<and>
   rpc (snd (async_throw err h)) = rpc h \<and>
   sent (snd (async_throw err h)) = sent h \<and>
   timers (loop (snd (async_throw err h))) = timers (loop h) \<and>
   suspended (snd (async_throw err h)) = suspended h \<and>
   jobs (snd (async_throw err h)) = jobs h"
  by (simp add: async_throw_def new_promise_def promises_settle)

text \<open>
  C4. After a call of terminate, through every later run of the supervisor, the flag
  \<open>terminated\<close> stays set; each of the five invocation methods then returns a promise that
  is already rejected with the error "worker terminated", and leaves the correlator, its
  timers and the messages posted to the unit as they were; a further call of terminate
  returns a fulfilled promise and does nothing else.
\<close>

theorem terminated_is_a_latch:
  "terminated (host_run evs (snd (terminate h))) \<and>
   invokeTool toolName args (host_run evs (snd (terminate h))) =
     async_throw (new_Error ''worker terminated'') (host_run evs (snd (terminate h))) \<and>
   invokeHook hookName handlerId event (host_run evs (snd (terminate h))) =
     async_throw (new_Error ''worker terminated'') (host_run evs (snd (terminate h))) \<and>
   invokeServiceStart serviceId (host_run evs (snd (terminate h))) =
     async_throw (new_Error ''worker terminated'') (host_run evs (snd (terminate h))) \<and>
   invokeServiceStop serviceId (host_run evs (snd (terminate h))) =
     async_throw (new_Error ''worker terminated'') (host_run evs (snd (terminate h))) \<and>
   invokeCommand commandName cargs ctx (host_run evs (snd (terminate h))) =
     async_throw (new_Error ''worker terminated'') (host_run evs (snd (terminate h))) \<and>
   terminate (host_run evs (snd (terminate h))) =
     async_return JUndefined (host_run evs (snd (terminate h))) \<and>
   promises (loop (snd (async_throw err h'))) (fst (async_throw err h')) = Rejected err \<and>
   rpc (snd (async_throw err h')) = rpc h' \<and>
   timers (loop (snd (async_throw err h'))) = timers (loop h') \<and>
   sent (snd (async_throw err h')) = sent h' \<and>
   snd (async_return v h') = h'\<lparr>loop := loop (snd (async_return v h'))\<rparr> \<and>
   timers (loop (snd (async_return v h'))) = timers (loop h')"
proof -
  let ?H = "host_run evs (snd (terminate h))"
  have t: "terminated ?H"
    by (rule terminated_run) simp
  have inv: "invoke call ?H = async_throw (new_Error ''worker terminated'') ?H" for call
    using t by (simp only: invoke_def if_True)
  have again: "terminate ?H = async_return JUndefined ?H"
    using t by (simp only: terminate_def if_True)
  have thr: "promises (loop (snd (async_throw err h'))) (fst (async_throw err h')) = Rejected err"
    "rpc (snd (async_throw err h')) = rpc h'"
    "timers (loop (snd (async_throw err h'))) = timers (loop h')"
    "sent (snd (async_throw err h')) = sent h'"
    by (simp_all add: async_throw_def new_promise_def promises_settle)
  have ret: "snd (async_return v h') = h'\<lparr>loop := loop (snd (async_return v h'))\<rparr>"
    "timers (loop (snd (async_return v h'))) = timers (loop h')"
    by (simp_all add: async_return_def new_promise_def)
  show ?thesis
    unfolding invokeTool_def invokeHook_def invokeServiceStart_def invokeServiceStop_def
      invokeCommand_def inv again
    using t thr ret by simp
qed


lemma settled_rejectAll_loop:
  "promises w p \<noteq> Pending \<Longrightarrow> promises (rejectAll_loop err es w) p = promises w p"
  by (simp add: promises_rejectAll_loop)

lemma settled_settle:
  "promises w p \<noteq> Pending \<Longrightarrow> promises (settle q out w) p = promises w p"
  by (auto simp: promises_settle)

lemma settled_finish_terminate:
  "promises w p \<noteq> Pending \<Longrightarrow> promises (finish_terminate ts w) p = promises w p"
proof (induction ts arbitrary: w)
  case Nil
  show ?case by simp
next
  case (Cons x ts)
  obtain result exitPromise t where x: "x = (result, exitPromise, t)" by (cases x)
  let ?w = "settle result (Fulfilled JUndefined)
              (settle exitPromise (Fulfilled JUndefined) (clearTimeout t w))"
  have "promises ?w p = promises w p"
    using Cons.prems by (simp add: settled_settle)
  with Cons.IH[of ?w] Cons.prems show ?case by (simp add: x)
qed

lemma ready_settle_ready: "promises (loop (settle_ready out h)) (ready h) \<noteq> Pending \<or> out = Pending"
  by (simp add: settle_ready_def promises_settle)

lemma settle_ready_fields [simp]:
  "ready (settle_ready out h) = ready h"
  "rpc (settle_ready out h) = rpc h"
  "registrationTimer (settle_ready out h) = registrationTimer h"
  "timers (loop (settle_ready out h)) = timers (loop h)"
  "exited (settle_ready out h) = exited h"
  "terminating (settle_ready out h) = terminating h"
  by (simp_all add: settle_ready_def)

lemma on_error_effects:
  "timers (loop (on_error err h)) (registrationTimer h) = None \<and>
   promises (loop (on_error err h)) (ready h) \<noteq> Pending \<and>
   pending (rpc (on_error err h)) = [] \<and>
   (promises (loop h) (ready h) = Pending \<longrightarrow>
      promises (loop (on_error err h)) (ready h) =
        Rejected (case err of JError n m \<Rightarrow> err | _ \<Rightarrow> new_Error (js_String err)))"
proof -
  let ?out = "Rejected (case err of JError n m \<Rightarrow> err | _ \<Rightarrow> new_Error (js_String err))"
  let ?h2 = "settle_ready ?out (host_clearTimeout (registrationTimer h) h)"
  have r: "promises (loop ?h2) (ready h) \<noteq> Pending"
    using ready_settle_ready[of ?out "host_clearTimeout (registrationTimer h) h"]
    by (simp add: host_clearTimeout_def)
  have r': "promises (loop ?h2) (ready h) = ?out" if "promises (loop h) (ready h) = Pending"
    using that by (simp add: settle_ready_def host_clearTimeout_def promises_settle)
  have t: "timers (loop ?h2) (registrationTimer h) = None"
    by (simp add: host_clearTimeout_def)
  have e: "on_error err h = host_rejectAll (new_Error (''worker crashed: '' @ js_String err)) ?h2"
    by (simp add: on_error_def Let_def)
  show ?thesis
    unfolding e using r r' t
    by (simp add: host_rejectAll_def rejectAll_def timers_rejectAll_loop settled_rejectAll_loop)
qed

lemma on_exit_effects:
  assumes "code \<noteq> 0" and "\<not> exited h"
  shows "promises (loop (on_exit code h)) (ready h) \<noteq> Pending \<and>
         pending (rpc (on_exit code h)) = [] \<and>
         (promises (loop h) (ready h) = Pending \<longrightarrow>
            promises (loop (on_exit code h)) (ready h) =
              Rejected (new_Error (''worker exited with code '' @ show_int code)))"
proof -
  let ?out = "Rejected (new_Error (''worker exited with code '' @ show_int code))"
  let ?h1 = "settle_ready ?out h"
  have r: "promises (loop ?h1) (ready h) \<noteq> Pending"
    using ready_settle_ready[of ?out h] by simp
  have r': "promises (loop ?h1) (ready h) = ?out" if "promises (loop h) (ready h) = Pending"
    using that by (simp add: settle_ready_def promises_settle)
  show ?thesis
    using assms r r'
    by (simp add: on_exit_def on_exit_listener_def Let_def host_rejectAll_def rejectAll_def
        settled_rejectAll_loop settled_finish_terminate)
qed

lemma on_error_rejects_pending:
  assumes "(k, e) \<in> set (pending (rpc h))" and "promises (loop h) (reject e) = Pending"
    and "reject e \<noteq> ready h"
  shows "promises (loop (on_error err h)) (reject e) =
           Rejected (new_Error (''worker crashed: '' @ js_String err))"
proof -
  from assms(1) have m: "reject e \<in> reject ` snd ` set (pending (rpc h))" by force
  show ?thesis
    using m assms(2,3)
    by (simp add: on_error_def Let_def host_rejectAll_def rejectAll_def promises_rejectAll_loop
        settle_ready_def host_clearTimeout_def promises_settle)
qed

text \<open>
  C2. On an error event the supervisor clears the registration timer, rejects the ready
  promise and rejects every pending request. On an exit with a non-zero code it rejects the
  ready promise and every pending request, and leaves the registration timer scheduled: a
  worker that exits with code 1 before its registration completes leaves the timer behind.
\<close>

theorem exit_keeps_registration_timer:
  "timers (loop (on_exit 1 (createWorkerHost test_params)))
       (registrationTimer (createWorkerHost test_params)) = Some RegistrationTimeout \<and>
   promises (loop (on_exit 1 (createWorkerHost test_params))) (ready (createWorkerHost test_params)) =
     Rejected (new_Error ''worker exited with code 1'') \<and>
   timers (loop (on_error (new_Error ''boom'') (createWorkerHost test_params)))
       (registrationTimer (createWorkerHost test_params)) = None"
  by (simp add: createWorkerHost_def empty_world_def new_promise_def setTimeout_def on_exit_def
      on_exit_listener_def settle_ready_def settle_def host_rejectAll_def rejectAll_def Let_def
      show_int_def digit_char_def on_error_def host_clearTimeout_def clearTimeout_def new_Error_def)

end
